theory Spec2Isabelle
  imports Main "HOL-Library.List_Lexorder" "HOL-Library.Product_Lexorder"
begin

section \<open>Python strings\<close>

text \<open>
  A Python \<^verbatim>\<open>str\<close> is a sequence of Unicode code points; it is modelled as a list of
  natural numbers, so that \<^verbatim>\<open>len\<close> counts code points as Python does. ASCII literals
  of the source are written with \<open>str_of\<close>.

  The built-in case mappings are tables of the interpreter, not of the application.
  \<open>upper_cp\<close>, \<open>lower_cp\<close> and \<open>title_cp\<close> give the full Unicode mapping of one code
  point for Basic Latin and Latin-1 (U+0000 to U+00FF, which holds the Spanish
  alphabet), for the code points these map to (U+0178, U+039C, U+03BC, U+0307) and for
  U+0130 (LATIN CAPITAL LETTER I WITH DOT ABOVE), the one code point whose lower-case
  form is longer than one code point. Any other code point is left as it is.
  \<^verbatim>\<open>str.capitalize\<close> puts the first code point into title case and the rest into lower
  case (Python 3.8 and later).
  \<open>is_space\<close> is the complete list of code points that \<^verbatim>\<open>str.split()\<close> and
  \<^verbatim>\<open>str.strip()\<close> treat as whitespace.
\<close>

type_synonym pystr = "nat list"

definition str_of :: "string \<Rightarrow> pystr" where
  "str_of s = map of_char s"

definition is_space :: "nat \<Rightarrow> bool" where
  "is_space c \<longleftrightarrow>
     (9 \<le> c \<and> c \<le> 13) \<or> (28 \<le> c \<and> c \<le> 32) \<or> c = 133 \<or> c = 160 \<or> c = 5760 \<or>
     (8192 \<le> c \<and> c \<le> 8202) \<or> c = 8232 \<or> c = 8233 \<or> c = 8239 \<or> c = 8287 \<or> c = 12288"

definition upper_cp :: "nat \<Rightarrow> pystr" where
  "upper_cp c =
     (if 97 \<le> c \<and> c \<le> 122 then [c - 32]
      else if c = 181 then [924]
      else if c = 223 then [83, 83]
      else if 224 \<le> c \<and> c \<le> 254 \<and> c \<noteq> 247 then [c - 32]
      else if c = 255 then [376]
      else if c = 956 then [924]
      else [c])"

definition lower_cp :: "nat \<Rightarrow> pystr" where
  "lower_cp c =
     (if 65 \<le> c \<and> c \<le> 90 then [c + 32]
      else if 192 \<le> c \<and> c \<le> 222 \<and> c \<noteq> 215 then [c + 32]
      else if c = 304 then [105, 775]
      else if c = 376 then [255]
      else if c = 924 then [956]
      else [c])"

definition title_cp :: "nat \<Rightarrow> pystr" where
  "title_cp c =
     (if 97 \<le> c \<and> c \<le> 122 then [c - 32]
      else if c = 181 then [924]
      else if c = 223 then [83, 115]
      else if 224 \<le> c \<and> c \<le> 254 \<and> c \<noteq> 247 then [c - 32]
      else if c = 255 then [376]
      else if c = 956 then [924]
      else [c])"

definition str_upper :: "pystr \<Rightarrow> pystr" where
  "str_upper s = concat (map upper_cp s)"

definition str_lower :: "pystr \<Rightarrow> pystr" where
  "str_lower s = concat (map lower_cp s)"

fun str_capitalize :: "pystr \<Rightarrow> pystr" where
  "str_capitalize [] = []"
| "str_capitalize (c # cs) = title_cp c @ str_lower cs"

definition str_strip :: "pystr \<Rightarrow> pystr" where
  "str_strip s = rev (dropWhile is_space (rev (dropWhile is_space s)))"

fun split_from :: "pystr \<Rightarrow> pystr \<Rightarrow> pystr list" where
  "split_from w [] = (if w = [] then [] else [w])"
| "split_from w (c # cs) =
     (if is_space c then (if w = [] then split_from [] cs else w # split_from [] cs)
      else split_from (w @ [c]) cs)"

definition str_split :: "pystr \<Rightarrow> pystr list" where
  "str_split s = split_from [] s"

fun str_join :: "pystr \<Rightarrow> pystr list \<Rightarrow> pystr" where
  "str_join sep [] = []"
| "str_join sep [w] = w"
| "str_join sep (w # v # ws) = w @ sep @ str_join sep (v # ws)"

text \<open>\<^verbatim>\<open>s.replace(c, "")\<close> for a one-character \<^verbatim>\<open>c\<close>.\<close>

definition str_replace :: "nat \<Rightarrow> pystr \<Rightarrow> pystr" where
  "str_replace c s = filter (\<lambda>x. x \<noteq> c) s"

text \<open>\<^verbatim>\<open>(s or "")\<close> for a \<^verbatim>\<open>str\<close> argument: the empty string is falsy and yields \<^verbatim>\<open>""\<close>.\<close>

definition or_empty :: "pystr \<Rightarrow> pystr" where
  "or_empty s = (if s = [] then [] else s)"

text \<open>
  \<^verbatim>\<open>_to_title\<close>: strip, split on whitespace, capitalize a word longer than two code
  points and lower-case a shorter one, join with one space. \<open>title_word\<close> is the
  expression of the list comprehension.
\<close>

definition title_word :: "pystr \<Rightarrow> pystr" where
  "title_word w = (if length w > 2 then str_capitalize w else str_lower w)"

definition to_title :: "pystr \<Rightarrow> pystr" where
  "to_title s0 =
     (let s = str_strip (or_empty s0);
          parts = map title_word (str_split s)
      in str_join [32] parts)"

text \<open>\<^verbatim>\<open>_norm_placa\<close>: upper-case, then delete \<^verbatim>\<open>"-"\<close> (45), \<^verbatim>\<open>" "\<close> (32) and \<^verbatim>\<open>"."\<close> (46).\<close>

definition norm_placa :: "pystr \<Rightarrow> pystr" where
  "norm_placa s0 = str_replace 46 (str_replace 32 (str_replace 45 (str_upper (or_empty s0))))"



section \<open>Cells, the canonical header and the expansion of a submission\<close>

text \<open>
  A value of a row or of a table: text, an integer, or the missing value (\<^verbatim>\<open>None\<close>,
  \<^verbatim>\<open>NaN\<close>, \<^verbatim>\<open><NA>\<close>).
\<close>

datatype cell = Str pystr | Num int | NA

definition HEADERS :: "pystr list" where
  "HEADERS =
     [str_of ''timestamp'', str_of ''registro_id'',
      str_of ''nombre'', str_of ''ci'', str_of ''telefono'', str_of ''email'',
      str_of ''vehiculo_marca_modelo'', str_of ''color'', str_of ''placa'',
      str_of ''unidad'', str_of ''box'', str_of ''lugar'',
      str_of ''dia_semana'', str_of ''hora'',
      str_of ''observacion'', str_of ''origen_app'']"

text \<open>\<^verbatim>\<open>DIAS_ORD\<close>; 233 and 225 are the accented letters of the third and sixth name.\<close>

definition DIAS_ORD :: "pystr list" where
  "DIAS_ORD =
     [str_of ''Lunes'', str_of ''Martes'', str_of ''Mi'' @ [233] @ str_of ''rcoles'',
      str_of ''Jueves'', str_of ''Viernes'', str_of ''S'' @ [225] @ str_of ''bado'',
      str_of ''Domingo'']"

text \<open>The fields of the form, as the widgets return them after the two normalizers.\<close>

record form =
  nombre :: pystr
  ci :: pystr
  telefono :: pystr
  email :: pystr
  vehiculo :: pystr
  color :: pystr
  placa :: pystr
  unidad :: pystr
  box :: pystr
  lugar :: pystr
  observ :: pystr
  dias_sel :: "pystr list"
  horas_sel :: "int list"

text \<open>
  The list \<^verbatim>\<open>base\<close> of the source; \<open>ts\<close> is the timestamp and \<open>rid\<close> the
  \<^verbatim>\<open>uuid4\<close> string, both drawn once per submission.
\<close>

definition base_row :: "pystr \<Rightarrow> pystr \<Rightarrow> form \<Rightarrow> cell list" where
  "base_row ts rid f =
     [Str ts, Str rid,
      Str (nombre f), Str (ci f), Str (telefono f), Str (email f),
      Str (vehiculo f), Str (color f), Str (placa f),
      Str (unidad f), Str (box f), Str (lugar f),
      Str [], Str [],
      Str (observ f), Str (str_of ''streamlit'')]"

text \<open>
  The body of the inner loop: \<^verbatim>\<open>row = base.copy(); row[13] = d; row[14] = int(h)\<close>.
  Both indices are inside the sixteen cells of \<open>base_row\<close>, so no assignment raises.
\<close>

definition slot_row :: "cell list \<Rightarrow> pystr \<Rightarrow> int \<Rightarrow> cell list" where
  "slot_row base d h = (base[13 := Str d])[14 := Num h]"

fun hours_loop :: "cell list \<Rightarrow> pystr \<Rightarrow> int list \<Rightarrow> cell list list \<Rightarrow> cell list list" where
  "hours_loop base d [] rows = rows"
| "hours_loop base d (h # hs) rows = hours_loop base d hs (rows @ [slot_row base d h])"

fun days_loop :: "cell list \<Rightarrow> pystr list \<Rightarrow> int list \<Rightarrow> cell list list \<Rightarrow> cell list list" where
  "days_loop base [] hs rows = rows"
| "days_loop base (d # ds) hs rows = days_loop base ds hs (hours_loop base d hs rows)"

definition build_rows :: "pystr \<Rightarrow> pystr \<Rightarrow> form \<Rightarrow> cell list list" where
  "build_rows ts rid f = days_loop (base_row ts rid f) (dias_sel f) (horas_sel f) []"

text \<open>The position of a column in a header, and the cell of a row under a column.\<close>

fun index_of :: "'a \<Rightarrow> 'a list \<Rightarrow> nat option" where
  "index_of x [] = None"
| "index_of x (y # ys) = (if x = y then Some 0 else map_option Suc (index_of x ys))"

definition cell_at :: "cell list \<Rightarrow> nat \<Rightarrow> cell" where
  "cell_at r i = (if i < length r then r ! i else NA)"

definition field :: "pystr list \<Rightarrow> pystr \<Rightarrow> cell list \<Rightarrow> cell" where
  "field hs name r = (case index_of name hs of None \<Rightarrow> NA | Some i \<Rightarrow> cell_at r i)"

text \<open>The slot of a stored row: its cells under \<^verbatim>\<open>dia_semana\<close> and \<^verbatim>\<open>hora\<close>.\<close>

definition slot :: "cell list \<Rightarrow> cell \<times> cell" where
  "slot r = (field HEADERS (str_of ''dia_semana'') r, field HEADERS (str_of ''hora'') r)"

section \<open>The spreadsheet and the calls that can fail\<close>

text \<open>
  An exception is modelled by the text \<^verbatim>\<open>repr\<close> gives for it, the one thing the
  program reads from an exception.
\<close>

datatype exn = Exn pystr

definition repr :: "exn \<Rightarrow> pystr" where
  "repr e = (case e of Exn r \<Rightarrow> r)"

text \<open>A table: the column labels and the rows. This is what a \<^verbatim>\<open>DataFrame\<close> holds.\<close>

record dataframe =
  columns :: "pystr list"
  rows :: "cell list list"

datatype credential_source = Secrets_account | Secrets_json | Env_file

text \<open>
  Everything outside the program that it reads or changes:
  \<^item> \<open>credentials\<close>: the first credential source that is configured, if any;
  \<^item> \<open>worksheet\<close>: the rows of the sheet \<^verbatim>\<open>formularios\<close> as text (what
    \<^verbatim>\<open>get_all_values\<close> reads), \<open>None\<close> while the sheet does not exist;
  \<^item> \<open>faults\<close>: the outcome of each coming call of a library or of the network, in
    order: \<open>None\<close> lets the call succeed, \<open>Some e\<close> makes it raise \<open>e\<close>; calls past the
    end of the list succeed. Every pattern of credential, connectivity and quota failures
    is such a list;
  \<^item> \<open>snapshot\<close>: what \<^verbatim>\<open>pd.read_csv(GITHUB_CSV_RAW_URL)\<close> gives, a table or an exception;
  \<^item> \<open>cache\<close>: the slot of \<^verbatim>\<open>st.cache_data\<close> for \<^verbatim>\<open>load_data\<close>: the value and the
    second it was stored at.
\<close>

record world =
  credentials :: "credential_source option"
  worksheet :: "pystr list list option"
  faults :: "exn option list"
  snapshot :: "exn + dataframe"
  cache :: "(nat \<times> dataframe) option"

type_synonym 'a io = "world \<Rightarrow> (exn + 'a) \<times> world"

definition io_return :: "'a \<Rightarrow> 'a io" where
  "io_return x w = (Inr x, w)"

definition io_raise :: "exn \<Rightarrow> 'a io" where
  "io_raise e w = (Inl e, w)"

definition io_bind :: "'a io \<Rightarrow> ('a \<Rightarrow> 'b io) \<Rightarrow> 'b io" where
  "io_bind m f w = (case m w of (Inl e, w') \<Rightarrow> (Inl e, w') | (Inr x, w') \<Rightarrow> f x w')"

text \<open>\<^verbatim>\<open>try: m except Exception as e: h(e)\<close>.\<close>

definition io_catch :: "'a io \<Rightarrow> (exn \<Rightarrow> 'a io) \<Rightarrow> 'a io" where
  "io_catch m h w = (case m w of (Inl e, w') \<Rightarrow> h e w' | (Inr x, w') \<Rightarrow> (Inr x, w'))"

text \<open>One call of a library or of the network: it takes the next entry of \<open>faults\<close>.\<close>

definition api_call :: "unit io" where
  "api_call w =
     (case faults w of
        [] \<Rightarrow> (Inr (), w)
      | None # fs \<Rightarrow> (Inr (), w\<lparr>faults := fs\<rparr>)
      | Some e # fs \<Rightarrow> (Inl e, w\<lparr>faults := fs\<rparr>))"

text \<open>The \<^verbatim>\<open>KeyError\<close> that \<^verbatim>\<open>_get_gspread_client\<close> raises itself; 34 and 39 are the quotes.\<close>

definition no_credentials :: exn where
  "no_credentials =
     Exn (str_of ''KeyError('' @ [34]
          @ str_of ''No se encontraron credenciales. Configure st.secrets['' @ [39]
          @ str_of ''gcp_service_account'' @ [39]
          @ str_of ''] o la variable GOOGLE_APPLICATION_CREDENTIALS.'' @ [34] @ str_of '')'')"

definition worksheet_not_found :: exn where
  "worksheet_not_found = Exn (str_of ''WorksheetNotFound('' @ [39] @ str_of ''formularios'' @ [39] @ str_of '')'')"

definition sheet_exists :: exn where
  "sheet_exists = Exn (str_of ''APIError: a sheet named formularios already exists'')"

text \<open>
  \<^verbatim>\<open>_get_gspread_client\<close>: building the credentials is one library call (two for the JSON
  secret, which is parsed first), \<^verbatim>\<open>gspread.authorize\<close> is another.
\<close>

definition get_gspread_client :: "unit io" where
  "get_gspread_client w =
     (case credentials w of
        None \<Rightarrow> io_raise no_credentials w
      | Some Secrets_json \<Rightarrow> io_bind api_call (\<lambda>_. io_bind api_call (\<lambda>_. api_call)) w
      | Some _ \<Rightarrow> io_bind api_call (\<lambda>_. api_call) w)"

definition find_worksheet :: "unit io" where
  "find_worksheet =
     io_bind api_call (\<lambda>_ w.
       case worksheet w of None \<Rightarrow> io_raise worksheet_not_found w | Some _ \<Rightarrow> io_return () w)"

definition add_worksheet :: "unit io" where
  "add_worksheet =
     io_bind api_call (\<lambda>_ w.
       case worksheet w of
         None \<Rightarrow> io_return () (w\<lparr>worksheet := Some []\<rparr>)
       | Some _ \<Rightarrow> io_raise sheet_exists w)"

text \<open>\<^verbatim>\<open>_open_or_create_sheet\<close>: open the spreadsheet, then look the sheet up or add it.\<close>

definition open_or_create_sheet :: "unit io" where
  "open_or_create_sheet = io_bind api_call (\<lambda>_. io_catch find_worksheet (\<lambda>e. add_worksheet))"

text \<open>
  \<^verbatim>\<open>get_all_values\<close> gives the used range as a rectangle: the library pads every row
  with empty strings to the width of the longest.
\<close>

definition pad_row :: "nat \<Rightarrow> pystr list \<Rightarrow> pystr list" where
  "pad_row n r = r @ replicate (n - length r) []"

definition fill_gaps :: "pystr list list \<Rightarrow> pystr list list" where
  "fill_gaps vs = map (pad_row (foldr max (map length vs) 0)) vs"

definition get_all_values :: "pystr list list io" where
  "get_all_values =
     io_bind api_call (\<lambda>_ w.
       case worksheet w of
         None \<Rightarrow> io_raise worksheet_not_found w
       | Some vs \<Rightarrow> io_return (fill_gaps vs) w)"

text \<open>A call that rewrites the rows of the sheet.\<close>

definition update_sheet :: "(pystr list list \<Rightarrow> pystr list list) \<Rightarrow> unit io" where
  "update_sheet g =
     io_bind api_call (\<lambda>_ w.
       case worksheet w of
         None \<Rightarrow> io_raise worksheet_not_found w
       | Some vs \<Rightarrow> io_return () (w\<lparr>worksheet := Some (g vs)\<rparr>))"

text \<open>The decimal text of an integer, as the sheet shows a number written to it.\<close>

fun digits :: "nat \<Rightarrow> pystr" where
  "digits n = (if n < 10 then [48 + n] else digits (n div 10) @ [48 + n mod 10])"

definition str_int :: "int \<Rightarrow> pystr" where
  "str_int i = (if i < 0 then 45 # digits (nat (- i)) else digits (nat i))"

definition render :: "cell \<Rightarrow> pystr" where
  "render c = (case c of Str s \<Rightarrow> s | Num n \<Rightarrow> str_int n | NA \<Rightarrow> [])"

definition append_row :: "pystr list \<Rightarrow> unit io" where
  "append_row r = update_sheet (\<lambda>vs. vs @ [r])"

definition delete_first_row :: "unit io" where
  "delete_first_row = update_sheet (\<lambda>vs. drop 1 vs)"

definition insert_first_row :: "pystr list \<Rightarrow> unit io" where
  "insert_first_row r = update_sheet (\<lambda>vs. r # vs)"

definition append_rows :: "cell list list \<Rightarrow> unit io" where
  "append_rows rs = update_sheet (\<lambda>vs. vs @ map (map render) rs)"

text \<open>
  \<^verbatim>\<open>list(dict.fromkeys(ks))\<close>: the keys of a dictionary are kept in the order of their
  first insertion, and inserting a key again changes nothing.
\<close>

fun fromkeys_into :: "'a list \<Rightarrow> 'a list \<Rightarrow> 'a list" where
  "fromkeys_into acc [] = acc"
| "fromkeys_into acc (k # ks) = fromkeys_into (if k \<in> set acc then acc else acc @ [k]) ks"

definition dict_fromkeys :: "'a list \<Rightarrow> 'a list" where
  "dict_fromkeys ks = fromkeys_into [] ks"

definition merge_headers :: "pystr list \<Rightarrow> pystr list \<Rightarrow> pystr list" where
  "merge_headers current_headers headers = dict_fromkeys (current_headers @ headers)"

text \<open>\<^verbatim>\<open>_ensure_headers\<close>.\<close>

definition ensure_headers :: "pystr list \<Rightarrow> unit io" where
  "ensure_headers headers =
     io_bind get_all_values (\<lambda>vals.
       if vals = [] then append_row headers
       else
         (let current_headers = hd vals in
          if current_headers \<noteq> headers then
            io_bind delete_first_row (\<lambda>_.
              insert_first_row (merge_headers current_headers headers))
          else io_return ()))"

text \<open>The body of the \<^verbatim>\<open>try\<close> of \<^verbatim>\<open>append_form_rows\<close>, and the function itself.\<close>

definition append_attempt :: "cell list list \<Rightarrow> unit io" where
  "append_attempt rs =
     io_bind get_gspread_client (\<lambda>_.
     io_bind open_or_create_sheet (\<lambda>_.
     io_bind (ensure_headers HEADERS) (\<lambda>_.
     append_rows rs)))"

definition append_form_rows :: "cell list list \<Rightarrow> world \<Rightarrow> (bool \<times> pystr) \<times> world" where
  "append_form_rows rs w =
     (case append_attempt rs w of
        (Inr _, w') \<Rightarrow> ((True, str_of ''OK''), w')
      | (Inl e, w') \<Rightarrow> ((False, repr e), w'))"

section \<open>Reading the table\<close>

text \<open>
  \<^verbatim>\<open>pd.DataFrame(data, columns=header)\<close> on lists of text: it raises when the longest row
  and the header differ in length, and fills a shorter row with missing values.
\<close>

definition value_error :: exn where
  "value_error = Exn (str_of ''ValueError: columns passed and data differ in width'')"

definition mk_dataframe :: "pystr list list \<Rightarrow> pystr list \<Rightarrow> exn + dataframe" where
  "mk_dataframe data header =
     (if data \<noteq> [] \<and> foldr max (map length data) 0 \<noteq> length header then Inl value_error
      else Inr \<lparr>columns = header,
                rows = map (\<lambda>r. map Str r @ replicate (length header - length r) NA) data\<rparr>)"

definition empty_frame :: dataframe where
  "empty_frame = \<lparr>columns = HEADERS, rows = []\<rparr>"

text \<open>
  \<^verbatim>\<open>pd.to_numeric(col, errors="coerce").astype("Int64")\<close>. What a text denotes is the
  library's parser, the parameter \<open>num_of\<close>: a whole number, a number that is not
  whole (such as 8.5), or nothing numeric, which \<^verbatim>\<open>coerce\<close> turns into the missing
  value. The cast to the nullable integer type keeps whole numbers and missing values,
  and raises \<^verbatim>\<open>TypeError\<close> when a value is not whole.
\<close>

datatype numeric = Whole int | Inexact | NaN

definition to_numeric :: "(pystr \<Rightarrow> numeric) \<Rightarrow> cell \<Rightarrow> numeric" where
  "to_numeric num_of c = (case c of Str s \<Rightarrow> num_of s | Num n \<Rightarrow> Whole n | NA \<Rightarrow> NaN)"

definition cast_error :: exn where
  "cast_error = Exn (str_of ''TypeError('' @ [39]
                     @ str_of ''cannot safely cast non-equivalent float64 to int64'' @ [39] @ str_of '')'')"

definition astype_Int64 :: "numeric list \<Rightarrow> exn + cell list" where
  "astype_Int64 xs =
     (if Inexact \<in> set xs then Inl cast_error
      else Inr (map (\<lambda>x. case x of Whole n \<Rightarrow> Num n | _ \<Rightarrow> NA) xs))"

text \<open>\<^verbatim>\<open>pd.Categorical(col, categories=DIAS_ORD, ordered=True)\<close>: a value outside the categories is missing.\<close>

definition categorical :: "pystr list \<Rightarrow> cell \<Rightarrow> cell" where
  "categorical cats c = (case c of Str s \<Rightarrow> (if s \<in> set cats then Str s else NA) | _ \<Rightarrow> NA)"

text \<open>Reading and replacing the column at a position.\<close>

definition column_at :: "dataframe \<Rightarrow> nat \<Rightarrow> cell list" where
  "column_at df i = map (\<lambda>r. cell_at r i) (rows df)"

definition set_column_at :: "dataframe \<Rightarrow> nat \<Rightarrow> cell list \<Rightarrow> dataframe" where
  "set_column_at df i vs = df\<lparr>rows := map (\<lambda>(r, v). r[i := v]) (zip (rows df) vs)\<rparr>"

text \<open>The two statements under \<^verbatim>\<open># Normalizaciones minimas\<close>.\<close>

definition normalize_hora :: "(pystr \<Rightarrow> numeric) \<Rightarrow> dataframe \<Rightarrow> exn + dataframe" where
  "normalize_hora num_of df =
     (case index_of (str_of ''hora'') (columns df) of
        None \<Rightarrow> Inr df
      | Some i \<Rightarrow>
          (case astype_Int64 (map (to_numeric num_of) (column_at df i)) of
             Inl e \<Rightarrow> Inl e
           | Inr vs \<Rightarrow> Inr (set_column_at df i vs)))"

definition normalize_dia :: "dataframe \<Rightarrow> dataframe" where
  "normalize_dia df =
     (case index_of (str_of ''dia_semana'') (columns df) of
        None \<Rightarrow> df
      | Some i \<Rightarrow> set_column_at df i (map (categorical DIAS_ORD) (column_at df i)))"

definition normalize :: "(pystr \<Rightarrow> numeric) \<Rightarrow> dataframe \<Rightarrow> exn + dataframe" where
  "normalize num_of df =
     (case normalize_hora num_of df of Inl e \<Rightarrow> Inl e | Inr df' \<Rightarrow> Inr (normalize_dia df'))"

text \<open>
  \<^verbatim>\<open>load_data\<close> without its cache. The first \<^verbatim>\<open>try\<close> either returns at once (the
  \<^verbatim>\<open>return\<close> for an empty sheet) or hands a table on to the normalization.
\<close>

datatype loaded = Returned dataframe | Table dataframe

definition read_primary :: "loaded io" where
  "read_primary =
     io_bind get_gspread_client (\<lambda>_.
     io_bind open_or_create_sheet (\<lambda>_.
     io_bind (ensure_headers HEADERS) (\<lambda>_.
     io_bind get_all_values (\<lambda>values.
       if values = [] then io_return (Returned empty_frame)
       else
         (case mk_dataframe (tl values) (hd values) of
            Inl e \<Rightarrow> io_raise e
          | Inr df \<Rightarrow> io_return (Table df))))))"

definition read_csv :: "dataframe io" where
  "read_csv w = (snapshot w, w)"

definition read_secondary :: "loaded io" where
  "read_secondary =
     io_catch (io_bind read_csv (\<lambda>df. io_return (Table df)))
              (\<lambda>e. io_return (Table empty_frame))"

definition load_data :: "(pystr \<Rightarrow> numeric) \<Rightarrow> dataframe io" where
  "load_data num_of =
     io_bind (io_catch read_primary (\<lambda>e. read_secondary)) (\<lambda>r.
       case r of
         Returned df \<Rightarrow> io_return df
       | Table df \<Rightarrow>
           (case normalize num_of df of Inl e \<Rightarrow> io_raise e | Inr df' \<Rightarrow> io_return df'))"


section \<open>The registration tab\<close>



section \<open>The dashboard tab\<close>

text \<open>Sequencing of steps that can raise, outside the spreadsheet.\<close>

definition and_then :: "exn + 'a \<Rightarrow> ('a \<Rightarrow> exn + 'b) \<Rightarrow> exn + 'b" where
  "and_then r f = (case r of Inl e \<Rightarrow> Inl e | Inr x \<Rightarrow> f x)"

definition key_error :: "pystr \<Rightarrow> exn" where
  "key_error name = Exn (str_of ''KeyError('' @ [39] @ name @ [39] @ str_of '')'')"

definition attribute_error :: exn where
  "attribute_error =
     Exn (str_of ''AttributeError('' @ [34] @ [39] @ str_of ''list'' @ [39]
          @ str_of '' object has no attribute '' @ [39] @ str_of ''dropna'' @ [39] @ [34] @ str_of '')'')"

definition sort_error :: exn where
  "sort_error = Exn (str_of ''TypeError: values of type str and int cannot be ordered'')"

definition int_error :: exn where
  "int_error = Exn (str_of ''ValueError: invalid literal for int()'')"

text \<open>\<^verbatim>\<open>df.empty\<close>: no column or no row.\<close>

definition df_empty :: "dataframe \<Rightarrow> bool" where
  "df_empty df \<longleftrightarrow> columns df = [] \<or> rows df = []"

text \<open>\<^verbatim>\<open>df[name]\<close>, which raises \<^verbatim>\<open>KeyError\<close> for a label that is not a column.\<close>

definition get_column :: "dataframe \<Rightarrow> pystr \<Rightarrow> exn + cell list" where
  "get_column df name =
     (case index_of name (columns df) of
        None \<Rightarrow> Inl (key_error name)
      | Some i \<Rightarrow> Inr (column_at df i))"

text \<open>\<^verbatim>\<open>col.dropna().unique().tolist()\<close>: the values that are not missing, each once, in the order of first occurrence.\<close>

definition unique_values :: "cell list \<Rightarrow> cell list" where
  "unique_values cs = dict_fromkeys (filter (\<lambda>c. c \<noteq> NA) cs)"

text \<open>
  The options of the three filter widgets. \<^verbatim>\<open>df.get("unidad", [])\<close> gives a list when
  the column is missing, and a list has no \<^verbatim>\<open>dropna\<close>; \<^verbatim>\<open>sorted\<close> cannot order text
  against numbers; \<^verbatim>\<open>int(h)\<close> of a text is taken from the parser \<open>num_of\<close>
  (\<^verbatim>\<open>load_data\<close> leaves no text in that column).
\<close>

definition unidades_options :: "dataframe \<Rightarrow> exn + cell list" where
  "unidades_options df =
     (case index_of (str_of ''unidad'') (columns df) of
        None \<Rightarrow> Inl attribute_error
      | Some i \<Rightarrow>
          (let us = filter (\<lambda>u. str_strip (render u) \<noteq> []) (unique_values (column_at df i));
               texts = concat (map (\<lambda>u. case u of Str s \<Rightarrow> [s] | _ \<Rightarrow> []) us);
               nums = concat (map (\<lambda>u. case u of Num n \<Rightarrow> [n] | _ \<Rightarrow> []) us)
           in if texts \<noteq> [] \<and> nums \<noteq> [] then Inl sort_error
              else Inr (map Str (sort texts) @ map Num (sort nums))))"

definition dias_options :: "dataframe \<Rightarrow> exn + pystr list" where
  "dias_options df =
     and_then (get_column df (str_of ''dia_semana''))
       (\<lambda>cs. Inr (filter (\<lambda>d. Str d \<in> set (unique_values cs)) DIAS_ORD))"

definition int_of_cell :: "(pystr \<Rightarrow> numeric) \<Rightarrow> cell \<Rightarrow> exn + int" where
  "int_of_cell num_of c =
     (case to_numeric num_of c of Whole n \<Rightarrow> Inr n | _ \<Rightarrow> Inl int_error)"

fun collect :: "(exn + 'a) list \<Rightarrow> exn + 'a list" where
  "collect [] = Inr []"
| "collect (r # rs) = and_then r (\<lambda>x. and_then (collect rs) (\<lambda>xs. Inr (x # xs)))"

definition horas_options :: "(pystr \<Rightarrow> numeric) \<Rightarrow> dataframe \<Rightarrow> exn + int list" where
  "horas_options num_of df =
     and_then (get_column df (str_of ''hora''))
       (\<lambda>cs. and_then (collect (map (int_of_cell num_of) (unique_values cs)))
          (\<lambda>hs. Inr (sort hs)))"

definition filter_options ::
  "(pystr \<Rightarrow> numeric) \<Rightarrow> dataframe \<Rightarrow> exn + (cell list \<times> pystr list \<times> int list)" where
  "filter_options num_of df =
     and_then (unidades_options df) (\<lambda>us.
     and_then (dias_options df) (\<lambda>ds.
     and_then (horas_options num_of df) (\<lambda>hs. Inr (us, ds, hs))))"

text \<open>
  \<^verbatim>\<open>if f: q = q[q[name].isin(f)]\<close>: an empty selection is falsy and the statement
  is skipped; otherwise the rows whose cell is among the selected values are kept.
\<close>

definition isin_filter :: "pystr \<Rightarrow> cell list \<Rightarrow> dataframe \<Rightarrow> exn + dataframe" where
  "isin_filter name vals q =
     (case index_of name (columns q) of
        None \<Rightarrow> Inl (key_error name)
      | Some i \<Rightarrow> Inr (q\<lparr>rows := filter (\<lambda>r. cell_at r i \<in> set vals) (rows q)\<rparr>))"

definition filter_step :: "pystr \<Rightarrow> cell list \<Rightarrow> dataframe \<Rightarrow> exn + dataframe" where
  "filter_step name vals q = (if vals \<noteq> [] then isin_filter name vals q else Inr q)"

definition apply_filters ::
  "cell list \<Rightarrow> cell list \<Rightarrow> cell list \<Rightarrow> dataframe \<Rightarrow> exn + dataframe" where
  "apply_filters f_unidades f_dias f_horas df =
     and_then (filter_step (str_of ''unidad'') f_unidades df) (\<lambda>q1.
     and_then (filter_step (str_of ''dia_semana'') f_dias q1) (\<lambda>q2.
     filter_step (str_of ''hora'') f_horas q2))"

text \<open>\<^verbatim>\<open>q[name].nunique() if name in q.columns else 0\<close>.\<close>

definition nunique_or_zero :: "dataframe \<Rightarrow> pystr \<Rightarrow> nat" where
  "nunique_or_zero q name =
     (case index_of name (columns q) of
        None \<Rightarrow> 0
      | Some i \<Rightarrow> length (unique_values (column_at q i)))"

text \<open>
  \<^verbatim>\<open>groupby(keys, dropna=False)["registro_id"].count().reset_index(name="n")\<close> on the
  pairs of a row's key and its \<^verbatim>\<open>registro_id\<close>: one entry per key, a missing key
  included, with the number of its rows whose \<^verbatim>\<open>registro_id\<close> is not missing.
  Each use below sorts the entries afterwards. The library leaves the order of entries
  with equal sort keys open; the model keeps them in the order of first occurrence.
\<close>

definition group_count :: "('k \<times> cell) list \<Rightarrow> ('k \<times> nat) list" where
  "group_count kvs =
     map (\<lambda>k. (k, length (filter (\<lambda>kv. fst kv = k \<and> snd kv \<noteq> NA) kvs)))
         (dict_fromkeys (map fst kvs))"

text \<open>\<^verbatim>\<open>sort_values("n", ascending=False)\<close>.\<close>

definition sort_desc :: "('k \<times> nat) list \<Rightarrow> ('k \<times> nat) list" where
  "sort_desc gs = sort_key (\<lambda>g. - int (snd g)) gs"

definition column_not_found :: "pystr \<Rightarrow> exn" where
  "column_not_found name =
     Exn (str_of ''KeyError('' @ [39] @ str_of ''Column not found: '' @ name @ [39] @ str_of '')'')"

definition counted_column :: "dataframe \<Rightarrow> exn + cell list" where
  "counted_column q =
     (case index_of (str_of ''registro_id'') (columns q) of
        None \<Rightarrow> Inl (column_not_found (str_of ''registro_id''))
      | Some i \<Rightarrow> Inr (column_at q i))"

definition by_unidad :: "dataframe \<Rightarrow> exn + (cell \<times> nat) list" where
  "by_unidad q =
     and_then (get_column q (str_of ''unidad'')) (\<lambda>ks.
     and_then (counted_column q) (\<lambda>vs.
     Inr (sort_desc (group_count (zip ks vs)))))"

text \<open>
  The heat map: grouped by day and hour, the day made categorical again, sorted by day
  in the order of \<^verbatim>\<open>DIAS_ORD\<close> and then by hour, missing values last. The entries are
  the pairs that occur in \<open>q\<close>; a library version that also lists the categories that
  do not occur adds, with count zero, pairs of a day with an hour that occurs in \<open>q\<close>.
\<close>

definition dia_rank :: "cell \<Rightarrow> nat" where
  "dia_rank c =
     (case c of
        Str s \<Rightarrow> (case index_of s DIAS_ORD of Some i \<Rightarrow> i | None \<Rightarrow> length DIAS_ORD)
      | _ \<Rightarrow> length DIAS_ORD)"

definition hora_rank :: "cell \<Rightarrow> nat \<times> int" where
  "hora_rank c = (case c of Num n \<Rightarrow> (0, n) | _ \<Rightarrow> (1, 0))"

definition grid :: "dataframe \<Rightarrow> exn + ((cell \<times> cell) \<times> nat) list" where
  "grid q =
     and_then (get_column q (str_of ''dia_semana'')) (\<lambda>ds.
     and_then (get_column q (str_of ''hora'')) (\<lambda>hs.
     and_then (counted_column q) (\<lambda>vs.
     Inr (sort_key (\<lambda>g. (dia_rank (fst (fst g)), hora_rank (snd (fst g))))
            (map (\<lambda>g. ((categorical DIAS_ORD (fst (fst g)), snd (fst g)), snd g))
                 (group_count (zip (zip ds hs) vs)))))))"

text \<open>\<^verbatim>\<open>top_personas\<close>: grouped by name, sorted by count, \<^verbatim>\<open>head(20)\<close>.\<close>

definition top_personas :: "dataframe \<Rightarrow> exn + (cell \<times> nat) list" where
  "top_personas q =
     and_then (get_column q (str_of ''nombre'')) (\<lambda>ks.
     and_then (counted_column q) (\<lambda>vs.
     Inr (take 20 (sort_desc (group_count (zip ks vs))))))"

text \<open>
  What the tab shows for the filtered table \<open>q\<close>: the four metrics (the first is shown
  with dots as thousands separators; the model keeps the number), the bars by unit, the
  heat map and the table of persons.
\<close>

record report =
  registros :: nat
  usuarios :: nat
  vehiculos :: nat
  unidades_activas :: nat
  por_unidad :: "(cell \<times> nat) list"
  heatmap :: "((cell \<times> cell) \<times> nat) list"
  personas :: "(cell \<times> nat) list"

definition aggregate :: "dataframe \<Rightarrow> exn + report" where
  "aggregate q =
     and_then (by_unidad q) (\<lambda>bu.
     and_then (grid q) (\<lambda>g.
     and_then (top_personas q) (\<lambda>tp.
     Inr \<lparr>registros = length (rows q),
          usuarios = nunique_or_zero q (str_of ''ci''),
          vehiculos = nunique_or_zero q (str_of ''placa''),
          unidades_activas = nunique_or_zero q (str_of ''unidad''),
          por_unidad = bu, heatmap = g, personas = tp\<rparr>)))"

definition zero_report :: report where
  "zero_report =
     \<lparr>registros = 0, usuarios = 0, vehiculos = 0, unidades_activas = 0,
      por_unidad = [], heatmap = [], personas = []\<rparr>"

datatype view = No_data | Dashboard report

text \<open>
  The tab for the table \<open>df\<close> that \<^verbatim>\<open>load_data()\<close> returned and the selections the
  user made in the three filter widgets.
\<close>

definition tab_tablero ::
  "(pystr \<Rightarrow> numeric) \<Rightarrow> dataframe \<Rightarrow> cell list \<Rightarrow> cell list \<Rightarrow> cell list \<Rightarrow> exn + view" where
  "tab_tablero num_of df f_unidades f_dias f_horas =
     (if df_empty df then Inr No_data
      else
        and_then (filter_options num_of df) (\<lambda>_.
        and_then (apply_filters f_unidades f_dias f_horas df) (\<lambda>q.
        and_then (aggregate q) (\<lambda>r. Inr (Dashboard r)))))"

section \<open>Reference notions for the statements\<close>

text \<open>
  The persons of a table and the number of records of a person, in the words of the
  specification: the names under \<^verbatim>\<open>nombre\<close>, and for a name the rows that carry it and
  have a \<^verbatim>\<open>registro_id\<close>.
\<close>

definition persons :: "dataframe \<Rightarrow> cell list" where
  "persons q = map (field (columns q) (str_of ''nombre'')) (rows q)"

definition record_count :: "dataframe \<Rightarrow> cell \<Rightarrow> nat" where
  "record_count q k =
     length (filter (\<lambda>r. field (columns q) (str_of ''nombre'') r = k
                        \<and> field (columns q) (str_of ''registro_id'') r \<noteq> NA) (rows q))"

text \<open>A table of twenty-one persons with one record each, named by the letters from code point 65 on.\<close>

definition crowd :: dataframe where
  "crowd = \<lparr>columns = [str_of ''nombre'', str_of ''registro_id''],
            rows = map (\<lambda>n. [Str [n], Str (str_of ''r'')]) [65..<86]\<rparr>"



text \<open>
  A world whose sheet has the canonical header and one row with the text \<^verbatim>\<open>8.5\<close>
  under \<^verbatim>\<open>hora\<close>, and a parser that reads that text as the library does.
\<close>

definition half_hour_world :: world where
  "half_hour_world =
     \<lparr>credentials = Some Secrets_account,
      worksheet = Some [HEADERS,
        [str_of ''2024-05-06T07:08:09'', str_of ''rid-1'', str_of ''Juan de la Cruz'',
         str_of ''1234567'', [], [], [], [], str_of ''AB123C'', str_of ''Anestesia'', [], [],
         str_of ''Lunes'', str_of ''8.5'', [], str_of ''manual'']],
      faults = [], snapshot = Inl (Exn (str_of ''HTTPError'')), cache = None\<rparr>"

definition half_hour_parser :: "pystr \<Rightarrow> numeric" where
  "half_hour_parser s = (if s = str_of ''8.5'' then Inexact else NaN)"

section \<open>Properties of the normalizers\<close>

lemmas str_eval = str_of_def is_space_def upper_cp_def lower_cp_def title_cp_def str_upper_def
  str_lower_def str_strip_def str_split_def str_replace_def or_empty_def title_word_def
  to_title_def norm_placa_def
















text \<open>The plate of the specification's scenario.\<close>

lemma norm_placa_example:
  "norm_placa (str_of ''ab-123.c'') = str_of ''AB123C''"
  by (simp add: str_eval)

































section \<open>The expansion of a submission\<close>

text \<open>
  The two loops append one row per pair, day by day and hour by hour in the order of the
  selections; every row is the base row with two cells replaced, so all rows share the
  timestamp, the \<^verbatim>\<open>registro_id\<close> and the fields of the person, vehicle and place.
\<close>

lemma hours_loop_eq: "hours_loop base d hs acc = acc @ map (slot_row base d) hs"
  by (induction hs arbitrary: acc) simp_all

lemma days_loop_eq:
  "days_loop base ds hs acc = acc @ concat (map (\<lambda>d. map (slot_row base d) hs) ds)"
  by (induction ds arbitrary: acc) (simp_all add: hours_loop_eq)

lemma build_rows_eq:
  "build_rows ts rid f =
     concat (map (\<lambda>d. map (slot_row (base_row ts rid f) d) (horas_sel f)) (dias_sel f))"
  by (simp add: build_rows_def days_loop_eq)



lemma index_HEADERS:
  "index_of (str_of ''dia_semana'') HEADERS = Some 12"
  "index_of (str_of ''hora'') HEADERS = Some 13"
  "index_of (str_of ''observacion'') HEADERS = Some 14"
  "index_of (str_of ''registro_id'') HEADERS = Some 1"
  by (simp_all add: HEADERS_def str_of_def)

lemma slot_row_cells:
  "slot_row (base_row ts rid f) d h =
     [Str ts, Str rid,
      Str (nombre f), Str (ci f), Str (telefono f), Str (email f),
      Str (vehiculo f), Str (color f), Str (placa f),
      Str (unidad f), Str (box f), Str (lugar f),
      Str [], Str d, Num h, Str (str_of ''streamlit'')]"
  by (simp add: slot_row_def base_row_def)

text \<open>
  For every submission, the cell of a row under \<^verbatim>\<open>dia_semana\<close> is the empty
  placeholder, the cell under \<^verbatim>\<open>hora\<close> is the day, and the cell under
  \<^verbatim>\<open>observacion\<close> is the hour.
\<close>

lemma slot_of_slot_row: "slot (slot_row (base_row ts rid f) d h) = (Str [], Str d)"
  by (simp add: slot_def field_def index_HEADERS cell_at_def slot_row_cells)

lemma observacion_of_slot_row:
  "field HEADERS (str_of ''observacion'') (slot_row (base_row ts rid f) d h) = Num h"
  by (simp add: field_def index_HEADERS cell_at_def slot_row_cells)

lemma build_rows_shape:
  "r \<in> set (build_rows ts rid f) \<Longrightarrow>
   \<exists>d h. d \<in> set (dias_sel f) \<and> h \<in> set (horas_sel f) \<and> r = slot_row (base_row ts rid f) d h"
  by (auto simp: build_rows_eq)

lemma build_rows_slots:
  "map slot (build_rows ts rid f) =
     concat (map (\<lambda>d. map (\<lambda>h. (Str [], Str d)) (horas_sel f)) (dias_sel f))"
  by (simp add: build_rows_eq map_concat comp_def slot_of_slot_row)

text \<open>
  C1, at the submission of the specification's own scenario: the days \<^verbatim>\<open>Lunes\<close>,
  \<^verbatim>\<open>Martes\<close> and the hours 8, 9. Four rows are built, in the order of the
  selections and with one \<^verbatim>\<open>registro_id\<close>, but the two assignments write one cell too
  far to the right: under \<^verbatim>\<open>dia_semana\<close> every row holds the empty placeholder, under
  \<^verbatim>\<open>hora\<close> it holds the day, and the hour replaces the observation. The slots of the
  rows are therefore not the pairs of a day and an hour.
\<close>

theorem build_rows_slot_misplaced:
  "map (\<lambda>r. (field HEADERS (str_of ''registro_id'') r, slot r,
              field HEADERS (str_of ''observacion'') r))
     (build_rows (str_of ''2024-05-06T07:08:09'') (str_of ''rid-1'')
        \<lparr>nombre = str_of ''Juan de la Cruz'', ci = str_of ''1234567'', telefono = [],
         email = [], vehiculo = [], color = [], placa = str_of ''AB123C'',
         unidad = str_of ''Anestesia'', box = [], lugar = [], observ = str_of ''nota'',
         dias_sel = [str_of ''Lunes'', str_of ''Martes''], horas_sel = [8, 9]\<rparr>)
   = [(Str (str_of ''rid-1''), (Str [], Str (str_of ''Lunes'')), Num 8),
      (Str (str_of ''rid-1''), (Str [], Str (str_of ''Lunes'')), Num 9),
      (Str (str_of ''rid-1''), (Str [], Str (str_of ''Martes'')), Num 8),
      (Str (str_of ''rid-1''), (Str [], Str (str_of ''Martes'')), Num 9)]"
  by (simp add: build_rows_eq slot_def field_def index_HEADERS cell_at_def slot_row_cells)

section \<open>The header merge\<close>

lemma fromkeys_into_append: "fromkeys_into acc (a @ b) = fromkeys_into (fromkeys_into acc a) b"
  by (induction a arbitrary: acc) simp_all

lemma fromkeys_into_acc:
  "fromkeys_into acc ks = acc @ filter (\<lambda>k. k \<notin> set acc) (fromkeys_into [] ks)"
proof (induction ks arbitrary: acc)
  case Nil
  show ?case by simp
next
  case (Cons k ks)
  have one: "fromkeys_into [k] ks = k # filter (\<lambda>x. x \<noteq> k) (fromkeys_into [] ks)"
    using Cons.IH [of "[k]"] by simp
  show ?case
  proof (cases "k \<in> set acc")
    case True
    then have "filter (\<lambda>x. x \<notin> set acc) (filter (\<lambda>x. x \<noteq> k) (fromkeys_into [] ks))
             = filter (\<lambda>x. x \<notin> set acc) (fromkeys_into [] ks)"
      by (auto intro: filter_cong)
    with True show ?thesis using Cons.IH [of acc] one by simp
  next
    case False
    have "filter (\<lambda>x. x \<notin> set (acc @ [k])) (fromkeys_into [] ks)
        = filter (\<lambda>x. x \<notin> set acc) (filter (\<lambda>x. x \<noteq> k) (fromkeys_into [] ks))"
      by (auto intro: filter_cong)
    with False show ?thesis using Cons.IH [of "acc @ [k]"] one by simp
  qed
qed

lemma dict_fromkeys_Nil: "dict_fromkeys [] = []"
  by (simp add: dict_fromkeys_def)

lemma dict_fromkeys_Cons: "dict_fromkeys (k # ks) = k # filter (\<lambda>x. x \<noteq> k) (dict_fromkeys ks)"
  using fromkeys_into_acc [of "[k]" ks] by (simp add: dict_fromkeys_def)

lemma set_dict_fromkeys: "set (dict_fromkeys ks) = set ks"
  by (induction ks) (auto simp: dict_fromkeys_Nil dict_fromkeys_Cons)

lemma distinct_dict_fromkeys: "distinct (dict_fromkeys ks)"
  by (induction ks) (simp_all add: dict_fromkeys_Nil dict_fromkeys_Cons)

lemma dict_fromkeys_distinct: "distinct ks \<Longrightarrow> dict_fromkeys ks = ks"
proof (induction ks)
  case Nil
  show ?case by (simp add: dict_fromkeys_Nil)
next
  case (Cons k ks)
  then have "filter (\<lambda>x. x \<noteq> k) ks = ks" by (auto simp: filter_id_conv)
  with Cons show ?case by (simp add: dict_fromkeys_Cons)
qed

lemma dict_fromkeys_append:
  "dict_fromkeys (a @ b) = dict_fromkeys a @ filter (\<lambda>k. k \<notin> set a) (dict_fromkeys b)"
  using fromkeys_into_acc [of "fromkeys_into [] a" b] set_dict_fromkeys [of a]
  by (simp add: dict_fromkeys_def fromkeys_into_append)

lemma distinct_HEADERS: "distinct HEADERS"
  by (simp add: HEADERS_def str_of_def)

lemma merge_headers_eq:
  "merge_headers cur HEADERS = dict_fromkeys cur @ filter (\<lambda>h. h \<notin> set cur) HEADERS"
  by (simp add: merge_headers_def dict_fromkeys_append dict_fromkeys_distinct [OF distinct_HEADERS])

text \<open>
  C2 (as amended). The merge of \<^verbatim>\<open>_ensure_headers\<close> keeps every column name of the
  existing header; the merged header is the existing names, each kept at its first
  occurrence and in the existing order, followed by the canonical names that the
  existing header lacks, in canonical order; and an existing header without a repeated
  name is kept as it is, cell by cell, at the front of the merged header.
\<close>

theorem merge_headers_union:
  "set cur \<subseteq> set (merge_headers cur HEADERS)
   \<and> merge_headers cur HEADERS = dict_fromkeys cur @ filter (\<lambda>h. h \<notin> set cur) HEADERS
   \<and> (distinct cur \<longrightarrow>
        merge_headers cur HEADERS = cur @ filter (\<lambda>h. h \<notin> set cur) HEADERS)"
  using merge_headers_eq [of cur] by (auto simp: set_dict_fromkeys dict_fromkeys_distinct)

theorem merge_headers_union_witness:
  "distinct [str_of ''legajo'', str_of ''placa'', str_of ''nombre'']
   \<and> merge_headers [str_of ''legajo'', str_of ''placa'', str_of ''nombre''] HEADERS =
       [str_of ''legajo'', str_of ''placa'', str_of ''nombre'',
        str_of ''timestamp'', str_of ''registro_id'', str_of ''ci'', str_of ''telefono'',
        str_of ''email'', str_of ''vehiculo_marca_modelo'', str_of ''color'',
        str_of ''unidad'', str_of ''box'', str_of ''lugar'', str_of ''dia_semana'',
        str_of ''hora'', str_of ''observacion'', str_of ''origen_app'']"
proof -
  have d: "distinct [str_of ''legajo'', str_of ''placa'', str_of ''nombre'']"
    by (simp add: str_of_def)
  from merge_headers_union [of "[str_of ''legajo'', str_of ''placa'', str_of ''nombre'']"] d
  have "merge_headers [str_of ''legajo'', str_of ''placa'', str_of ''nombre''] HEADERS =
          [str_of ''legajo'', str_of ''placa'', str_of ''nombre'']
          @ filter (\<lambda>h. h \<notin> set [str_of ''legajo'', str_of ''placa'', str_of ''nombre'']) HEADERS"
    by blast
  then show ?thesis using d by (simp add: HEADERS_def str_of_def)
qed

text \<open>
  C2 as stated fails for a header with a repeated name, here two blank cells between
  \<^verbatim>\<open>nombre\<close> and \<^verbatim>\<open>placa\<close>: the merged header holds one blank cell, and
  \<^verbatim>\<open>placa\<close> moves from the fourth column to the third while the rows below keep their
  cells where they were.
\<close>

theorem merge_headers_drops_repeated:
  "merge_headers [str_of ''nombre'', [], [], str_of ''placa''] HEADERS =
     [str_of ''nombre'', [], str_of ''placa'',
      str_of ''timestamp'', str_of ''registro_id'', str_of ''ci'', str_of ''telefono'',
      str_of ''email'', str_of ''vehiculo_marca_modelo'', str_of ''color'',
      str_of ''unidad'', str_of ''box'', str_of ''lugar'', str_of ''dia_semana'',
      str_of ''hora'', str_of ''observacion'', str_of ''origen_app'']"
  by (simp add: merge_headers_def dict_fromkeys_def HEADERS_def str_of_def)

section \<open>Appending rows\<close>

text \<open>Two of the failures: no credentials configured, and the first call raising.\<close>

lemma append_form_rows_no_credentials:
  "credentials w = None \<Longrightarrow> append_form_rows rs w = ((False, repr no_credentials), w)"
  by (simp add: append_form_rows_def append_attempt_def get_gspread_client_def
        io_bind_def io_raise_def)

lemma append_form_rows_first_call_fails:
  "credentials w = Some Secrets_account \<Longrightarrow> faults w = Some e # fs \<Longrightarrow>
   append_form_rows rs w = ((False, repr e), w\<lparr>faults := fs\<rparr>)"
  by (simp add: append_form_rows_def append_attempt_def get_gspread_client_def
        io_bind_def api_call_def)

text \<open>
  C4. For every list of rows and every state of the outside world, whatever the next
  calls do, \<^verbatim>\<open>append_form_rows\<close> returns a pair: \<^verbatim>\<open>(True, "OK")\<close> when no step of
  the attempt raised, and otherwise \<^verbatim>\<open>False\<close> with the \<^verbatim>\<open>repr\<close> of the exception
  that the attempt raised. No exception leaves the function.
\<close>

theorem append_form_rows_returns:
  "(\<exists>w'. append_attempt rs w = (Inr (), w')
         \<and> append_form_rows rs w = ((True, str_of ''OK''), w'))
   \<or> (\<exists>e w'. append_attempt rs w = (Inl e, w')
         \<and> append_form_rows rs w = ((False, repr e), w'))"
proof (cases "append_attempt rs w")
  case (Pair r w')
  then show ?thesis by (cases r) (simp_all add: append_form_rows_def)
qed

section \<open>The filters of the dashboard\<close>

lemma filter_step_empty: "filter_step name [] q = Inr q"
  by (simp add: filter_step_def)

lemma and_then_Inr: "and_then (Inr x) f = f x"
  by (simp add: and_then_def)

lemma and_then_return: "and_then r Inr = r"
  by (cases r) (simp_all add: and_then_def)

text \<open>
  C10. An empty selection in one of the three filters puts no restriction on that
  dimension: the filtered table is the one that the other two filters give, and with
  all three selections empty it is the table itself. The column of a dimension whose
  selection is empty is not even read.
\<close>

theorem apply_filters_empty_selection:
  "apply_filters [] f_dias f_horas df =
     and_then (filter_step (str_of ''dia_semana'') f_dias df)
              (filter_step (str_of ''hora'') f_horas)
   \<and> apply_filters f_unidades [] f_horas df =
     and_then (filter_step (str_of ''unidad'') f_unidades df)
              (filter_step (str_of ''hora'') f_horas)
   \<and> apply_filters f_unidades f_dias [] df =
     and_then (filter_step (str_of ''unidad'') f_unidades df)
              (filter_step (str_of ''dia_semana'') f_dias)
   \<and> apply_filters [] [] [] df = Inr df"
proof -
  have "and_then (filter_step (str_of ''unidad'') f_unidades df)
          (\<lambda>q1. and_then (filter_step (str_of ''dia_semana'') f_dias q1) Inr)
      = and_then (filter_step (str_of ''unidad'') f_unidades df)
          (filter_step (str_of ''dia_semana'') f_dias)"
    by (simp add: and_then_return)
  then show ?thesis
    by (simp add: apply_filters_def filter_step_empty and_then_Inr)
qed

section \<open>The metrics of the dashboard\<close>

lemma index_of_member: "x \<in> set xs \<Longrightarrow> \<exists>i. index_of x xs = Some i"
  by (induction xs) auto

lemma column_at_no_rows: "rows q = [] \<Longrightarrow> column_at q i = []"
  by (simp add: column_at_def)

lemma group_count_Nil: "group_count [] = []"
  by (simp add: group_count_def dict_fromkeys_def)

lemma sort_desc_Nil: "sort_desc [] = []"
  by (simp add: sort_desc_def)

lemma nunique_no_rows: "rows q = [] \<Longrightarrow> nunique_or_zero q name = 0"
  by (simp add: nunique_or_zero_def column_at_no_rows unique_values_def dict_fromkeys_def
      split: option.split)

lemma get_column_no_rows:
  "rows q = [] \<Longrightarrow> name \<in> set (columns q) \<Longrightarrow> get_column q name = Inr []"
  using index_of_member [of name "columns q"]
  by (auto simp: get_column_def column_at_no_rows)

lemma counted_column_no_rows:
  "rows q = [] \<Longrightarrow> str_of ''registro_id'' \<in> set (columns q) \<Longrightarrow> counted_column q = Inr []"
  using index_of_member [of "str_of ''registro_id''" "columns q"]
  by (auto simp: counted_column_def column_at_no_rows)

lemma aggregate_no_rows:
  assumes "rows q = []"
    and "str_of ''unidad'' \<in> set (columns q)" and "str_of ''dia_semana'' \<in> set (columns q)"
    and "str_of ''hora'' \<in> set (columns q)" and "str_of ''nombre'' \<in> set (columns q)"
    and "str_of ''registro_id'' \<in> set (columns q)"
  shows "aggregate q = Inr zero_report"
proof -
  have "by_unidad q = Inr []"
    using assms by (simp add: by_unidad_def get_column_no_rows counted_column_no_rows
        and_then_Inr group_count_Nil sort_desc_Nil)
  moreover have "grid q = Inr []"
    using assms by (simp add: grid_def get_column_no_rows counted_column_no_rows
        and_then_Inr group_count_Nil)
  moreover have "top_personas q = Inr []"
    using assms by (simp add: top_personas_def get_column_no_rows counted_column_no_rows
        and_then_Inr group_count_Nil sort_desc_Nil)
  ultimately show ?thesis
    using assms(1) by (simp add: aggregate_def and_then_Inr nunique_no_rows zero_report_def)
qed

text \<open>
  C7 (as amended). For a table without rows the dashboard does not fail: the guard
  \<^verbatim>\<open>if df.empty\<close> shows the warning that no data is available, and no count or
  grouping is computed. The metrics themselves, given a table without rows that has the
  columns \<^verbatim>\<open>unidad\<close>, \<^verbatim>\<open>dia_semana\<close>, \<^verbatim>\<open>hora\<close>, \<^verbatim>\<open>nombre\<close> and \<^verbatim>\<open>registro_id\<close>
  (what remains when the filters exclude every record), do not fail and give the total
  0, three distinct counts of 0 and three empty groupings.
\<close>

theorem aggregate_empty:
  assumes "rows q = []"
  shows "tab_tablero num_of q f_unidades f_dias f_horas = Inr No_data
         \<and> (set [str_of ''unidad'', str_of ''dia_semana'', str_of ''hora'', str_of ''nombre'',
                 str_of ''registro_id''] \<subseteq> set (columns q)
              \<longrightarrow> aggregate q = Inr zero_report)"
  using assms aggregate_no_rows [of q] by (simp add: tab_tablero_def df_empty_def)

theorem aggregate_empty_witness:
  "rows empty_frame = []
   \<and> tab_tablero (\<lambda>s. NaN) empty_frame [] [] [] = Inr No_data
   \<and> aggregate empty_frame = Inr zero_report"
proof -
  have r: "rows empty_frame = []"
    by (simp add: empty_frame_def)
  have c: "set [str_of ''unidad'', str_of ''dia_semana'', str_of ''hora'', str_of ''nombre'',
                str_of ''registro_id''] \<subseteq> set (columns empty_frame)"
    by (simp add: empty_frame_def HEADERS_def)
  from aggregate_empty [OF r, of "\<lambda>s. NaN" "[]" "[]" "[]"] c r show ?thesis by blast
qed

text \<open>
  C7 as stated fails at the empty table with the canonical header: the dashboard gives
  the warning, not a total of 0 with empty groupings.
\<close>

theorem tab_tablero_empty_warns:
  "tab_tablero (\<lambda>s. NaN) \<lparr>columns = HEADERS, rows = []\<rparr> [] [] [] = Inr No_data"
  by (simp add: tab_tablero_def df_empty_def)

section \<open>The table of persons\<close>


lemma group_count_keys: "map fst (group_count kvs) = dict_fromkeys (map fst kvs)"
  by (simp add: group_count_def comp_def)

lemma group_count_entry:
  "g \<in> set (group_count kvs) \<Longrightarrow>
   fst g \<in> fst ` set kvs \<and> snd g = length (filter (\<lambda>kv. fst kv = fst g \<and> snd kv \<noteq> NA) kvs)"
  by (force simp: group_count_def set_dict_fromkeys)

lemma group_count_has_key:
  "k \<in> fst ` set kvs \<Longrightarrow>
   (k, length (filter (\<lambda>kv. fst kv = k \<and> snd kv \<noteq> NA) kvs)) \<in> set (group_count kvs)"
  by (auto simp: group_count_def set_dict_fromkeys)

lemma set_sort_desc: "set (sort_desc gs) = set gs"
  by (simp add: sort_desc_def)

lemma length_sort_desc: "length (sort_desc gs) = length gs"
  by (simp add: sort_desc_def)

lemma distinct_keys_sort_desc:
  "distinct (map fst gs) \<Longrightarrow> distinct (map fst (sort_desc gs))"
  by (simp add: distinct_map sort_desc_def)

lemma sort_desc_descending: "sorted_wrt (\<lambda>a b. snd b \<le> snd a) (sort_desc gs)"
proof -
  have "sorted (map (\<lambda>g. - int (snd g)) (sort_desc gs))"
    by (simp add: sort_desc_def)
  then have "sorted_wrt (\<lambda>a b. - int (snd a) \<le> - int (snd b)) (sort_desc gs)"
    by (simp add: sorted_map)
  then show ?thesis
    by (rule sorted_wrt_mono_rel [rotated]) simp
qed

lemma descending_take: "sorted_wrt (\<lambda>a b. snd b \<le> snd a) xs \<Longrightarrow> sorted_wrt (\<lambda>a b. snd b \<le> snd a) (take n xs)"
  by (rule sorted_wrt_take)

lemma descending_take_drop:
  assumes "sorted_wrt (\<lambda>a b. snd b \<le> (snd a :: nat)) xs"
    and "x \<in> set (take n xs)" and "y \<in> set (drop n xs)"
  shows "snd y \<le> snd x"
proof -
  have "sorted_wrt (\<lambda>a b. snd b \<le> snd a) (take n xs @ drop n xs)"
    using assms(1) by simp
  then show ?thesis
    using assms(2,3) unfolding sorted_wrt_append by blast
qed

lemma zip_map_same: "zip (map f xs) (map g xs) = map (\<lambda>x. (f x, g x)) xs"
  by (induction xs) simp_all

lemma zip_columns:
  "zip (column_at q i) (column_at q j) = map (\<lambda>r. (cell_at r i, cell_at r j)) (rows q)"
  by (simp add: column_at_def zip_map_same)

lemma top_personas_groups:
  assumes "index_of (str_of ''nombre'') (columns q) = Some i"
    and "index_of (str_of ''registro_id'') (columns q) = Some j"
  shows "top_personas q =
           Inr (take 20 (sort_desc (group_count (map (\<lambda>r. (cell_at r i, cell_at r j)) (rows q)))))"
  using assms
  by (simp add: top_personas_def get_column_def counted_column_def and_then_Inr zip_columns)

lemma top_personas_length:
  assumes "str_of ''nombre'' \<in> set (columns q)" and "str_of ''registro_id'' \<in> set (columns q)"
  shows "\<exists>r. top_personas q = Inr r \<and> length r = min 20 (card (set (persons q)))"
proof -
  obtain i where i: "index_of (str_of ''nombre'') (columns q) = Some i"
    using index_of_member [OF assms(1)] by (elim exE)
  obtain j where j: "index_of (str_of ''registro_id'') (columns q) = Some j"
    using index_of_member [OF assms(2)] by (elim exE)
  note ij = i j
  let ?kvs = "map (\<lambda>r. (cell_at r i, cell_at r j)) (rows q)"
  have keys: "map fst ?kvs = persons q"
    by (simp add: persons_def field_def comp_def i)
  have "length (group_count ?kvs) = length (dict_fromkeys (persons q))"
  proof -
    have "length (group_count ?kvs) = length (map fst (group_count ?kvs))" by simp
    also have "\<dots> = length (dict_fromkeys (persons q))"
      by (simp only: group_count_keys keys)
    finally show ?thesis .
  qed
  also have "\<dots> = card (set (persons q))"
    using distinct_card [OF distinct_dict_fromkeys, of "persons q"] by (simp add: set_dict_fromkeys)
  finally show ?thesis
    unfolding top_personas_groups [OF ij] by (simp add: length_sort_desc)
qed

lemma record_count_groups:
  assumes "index_of (str_of ''nombre'') (columns q) = Some i"
    and "index_of (str_of ''registro_id'') (columns q) = Some j"
  shows "length (filter (\<lambda>kv. fst kv = k \<and> snd kv \<noteq> NA)
                   (map (\<lambda>r. (cell_at r i, cell_at r j)) (rows q))) = record_count q k"
  by (simp add: record_count_def field_def assms filter_map comp_def)

text \<open>
  C8 (as amended). For a table with the columns \<^verbatim>\<open>nombre\<close> and \<^verbatim>\<open>registro_id\<close>,
  \<^verbatim>\<open>top_personas\<close> lists twenty persons, or all of them when there are fewer; each
  person once, with the number of that person's records (rows with a
  \<^verbatim>\<open>registro_id\<close>); in descending order of that number; and no person left out has
  more records than a person listed. The number twenty is the constant of
  \<^verbatim>\<open>head(20)\<close>: nothing configures it.
\<close>

theorem top_personas_top20:
  assumes "str_of ''nombre'' \<in> set (columns q)" and "str_of ''registro_id'' \<in> set (columns q)"
  shows "\<exists>r. top_personas q = Inr r
             \<and> length r = min 20 (card (set (persons q)))
             \<and> distinct (map fst r)
             \<and> sorted_wrt (\<lambda>a b. snd b \<le> snd a) r
             \<and> (\<forall>g \<in> set r. fst g \<in> set (persons q) \<and> snd g = record_count q (fst g))
             \<and> (\<forall>k \<in> set (persons q). k \<notin> fst ` set r \<longrightarrow>
                    (\<forall>g \<in> set r. record_count q k \<le> snd g))"
proof -
  obtain i where i: "index_of (str_of ''nombre'') (columns q) = Some i"
    using index_of_member [OF assms(1)] by (elim exE)
  obtain j where j: "index_of (str_of ''registro_id'') (columns q) = Some j"
    using index_of_member [OF assms(2)] by (elim exE)
  let ?kvs = "map (\<lambda>r. (cell_at r i, cell_at r j)) (rows q)"
  let ?s = "sort_desc (group_count ?kvs)"
  let ?r = "take 20 ?s"
  have res: "top_personas q = Inr ?r"
    by (rule top_personas_groups [OF i j])
  have keys: "fst ` set ?kvs = set (persons q)"
    by (auto simp: persons_def field_def i image_iff)
  have len: "length ?r = min 20 (card (set (persons q)))"
    using top_personas_length [OF assms] res by auto
  have "distinct (map fst (group_count ?kvs))"
    by (simp only: group_count_keys distinct_dict_fromkeys)
  then have "distinct (map fst ?s)"
    by (rule distinct_keys_sort_desc)
  then have dist: "distinct (map fst ?r)"
    by (simp add: take_map [symmetric] del: take_map)
  have desc: "sorted_wrt (\<lambda>a b. snd b \<le> snd a) ?r"
    by (rule descending_take [OF sort_desc_descending])
  have entry: "\<And>g. g \<in> set ?s \<Longrightarrow> fst g \<in> set (persons q) \<and> snd g = record_count q (fst g)"
    using group_count_entry [of _ ?kvs] keys record_count_groups [OF i j]
    by (simp add: set_sort_desc)
  have listed: "\<forall>g \<in> set ?r. fst g \<in> set (persons q) \<and> snd g = record_count q (fst g)"
    using entry in_set_takeD by fast
  have rest: "\<forall>k \<in> set (persons q). k \<notin> fst ` set ?r \<longrightarrow>
                (\<forall>g \<in> set ?r. record_count q k \<le> snd g)"
  proof (intro ballI impI)
    fix k g
    assume k: "k \<in> set (persons q)" and out: "k \<notin> fst ` set ?r" and g: "g \<in> set ?r"
    have "(k, record_count q k) \<in> set ?s"
      using group_count_has_key [of k ?kvs] k keys record_count_groups [OF i j, of k]
      by (simp add: set_sort_desc)
    moreover have "(k, record_count q k) \<notin> set ?r"
      using out by force
    ultimately have "(k, record_count q k) \<in> set (drop 20 ?s)"
      using set_append [of ?r "drop 20 ?s"] by (simp only: append_take_drop_id) blast
    from descending_take_drop [OF sort_desc_descending g this]
    show "record_count q k \<le> snd g" by simp
  qed
  show ?thesis
    using res len dist desc listed rest by blast
qed

theorem top_personas_top20_witness:
  "str_of ''nombre'' \<in> set [str_of ''nombre'', str_of ''registro_id'']
   \<and> str_of ''registro_id'' \<in> set [str_of ''nombre'', str_of ''registro_id'']
   \<and> top_personas \<lparr>columns = [str_of ''nombre'', str_of ''registro_id''],
                    rows = [[Str (str_of ''Ana''), Str (str_of ''r1'')],
                            [Str (str_of ''Luz''), Str (str_of ''r2'')],
                            [Str (str_of ''Luz''), Str (str_of ''r3'')]]\<rparr>
       = Inr [(Str (str_of ''Luz''), 2), (Str (str_of ''Ana''), 1)]"
proof -
  let ?q = "\<lparr>columns = [str_of ''nombre'', str_of ''registro_id''],
             rows = [[Str (str_of ''Ana''), Str (str_of ''r1'')],
                     [Str (str_of ''Luz''), Str (str_of ''r2'')],
                     [Str (str_of ''Luz''), Str (str_of ''r3'')]]\<rparr>"
  have c: "str_of ''nombre'' \<in> set (columns ?q)" "str_of ''registro_id'' \<in> set (columns ?q)"
    by simp_all
  have e: "top_personas ?q = Inr [(Str (str_of ''Luz''), 2), (Str (str_of ''Ana''), 1)]"
    by (simp add: top_personas_def get_column_def counted_column_def and_then_def column_at_def
          cell_at_def group_count_def dict_fromkeys_def sort_desc_def str_of_def)
  from top_personas_top20 [OF c] e show ?thesis by simp
qed

lemma persons_crowd: "persons crowd = map (\<lambda>n. Str [n]) [65..<86]"
  by (simp add: persons_def crowd_def field_def cell_at_def comp_def)

lemma card_persons_crowd: "card (set (persons crowd)) = 21"
proof -
  have "distinct (map (\<lambda>n. Str [n]) [65..<86])"
    by (simp add: distinct_map inj_on_def)
  then show ?thesis
    using distinct_card [of "persons crowd"] by (simp add: persons_crowd)
qed

text \<open>
  C8 as stated fails in its last part: the number of persons listed cannot be chosen.
  For the table of twenty-one persons the list has twenty entries, and the function has
  no argument or setting that would list the twenty-first.
\<close>

theorem top_personas_fixed_at_20:
  "map_sum id length (top_personas crowd) = Inr 20 \<and> card (set (persons crowd)) = 21"
proof -
  have "str_of ''nombre'' \<in> set (columns crowd)" "str_of ''registro_id'' \<in> set (columns crowd)"
    by (simp_all add: crowd_def)
  from top_personas_length [OF this] card_persons_crowd show ?thesis by auto
qed

section \<open>The spreadsheet when no call fails, and after an append\<close>

lemmas io_defs = io_bind_def io_return_def io_raise_def io_catch_def

lemma api_call_quiet: "faults w = [] \<Longrightarrow> api_call w = (Inr (), w)"
  by (simp add: api_call_def)

lemma get_gspread_client_quiet:
  "faults w = [] \<Longrightarrow> credentials w = Some c \<Longrightarrow> get_gspread_client w = (Inr (), w)"
  by (cases c) (simp_all add: get_gspread_client_def io_defs api_call_quiet)

lemma open_or_create_sheet_quiet:
  "faults w = [] \<Longrightarrow> worksheet w = Some vs \<Longrightarrow> open_or_create_sheet w = (Inr (), w)"
  by (simp add: open_or_create_sheet_def find_worksheet_def io_defs api_call_quiet)

lemma get_all_values_quiet:
  "faults w = [] \<Longrightarrow> worksheet w = Some vs \<Longrightarrow> get_all_values w = (Inr (fill_gaps vs), w)"
  by (simp add: get_all_values_def io_defs api_call_quiet)






lemma foldr_max_const:
  "xs \<noteq> [] \<Longrightarrow> (\<And>x. x \<in> set xs \<Longrightarrow> f x = n) \<Longrightarrow> foldr max (map f xs) 0 = (n::nat)"
proof (induction xs)
  case Nil
  then show ?case by simp
next
  case (Cons x xs)
  show ?case
  proof (cases "xs = []")
    case True
    then show ?thesis using Cons.prems(2) [of x] by simp
  next
    case False
    then have "foldr max (map f xs) 0 = n" using Cons by simp
    then show ?thesis using Cons.prems(2) [of x] by simp
  qed
qed

lemma mk_dataframe_rectangle:
  assumes "\<And>r. r \<in> set data \<Longrightarrow> length r = length header"
  shows "mk_dataframe data header = Inr \<lparr>columns = header, rows = map (map Str) data\<rparr>"
proof -
  have w: "data \<noteq> [] \<Longrightarrow> foldr max (map length data) 0 = length header"
    by (rule foldr_max_const) (simp_all add: assms)
  have "map (\<lambda>r. map Str r @ replicate (length header - length r) NA) data = map (map Str) data"
    using assms by simp
  then show ?thesis using w by (auto simp: mk_dataframe_def)
qed















section \<open>Reading with fallback\<close>

text \<open>
  What the two \<^verbatim>\<open>try\<close> blocks achieve: the second read never fails, a failure of the
  first read leads to the snapshot, a failure of both to the empty table with the
  canonical header, and the one exception that can leave \<^verbatim>\<open>load_data\<close> is the one
  of the cast.
\<close>

lemma read_secondary_total:
  "read_secondary w = (Inr (Table (case snapshot w of Inl e \<Rightarrow> empty_frame | Inr d \<Rightarrow> d)), w)"
  by (simp add: read_secondary_def read_csv_def io_defs split: sum.split)

lemma normalize_empty_frame: "normalize num_of empty_frame = Inr empty_frame"
  by (simp add: normalize_def normalize_hora_def normalize_dia_def empty_frame_def
        index_HEADERS column_at_def set_column_at_def astype_Int64_def)

lemma normalize_raises:
  "normalize num_of df = Inl x \<Longrightarrow>
   x = cast_error \<and> (\<exists>i. index_of (str_of ''hora'') (columns df) = Some i
                        \<and> Inexact \<in> to_numeric num_of ` set (column_at df i))"
  by (auto simp: normalize_def normalize_hora_def astype_Int64_def
      split: option.splits sum.splits if_splits)

lemma load_data_after_primary:
  "read_primary w = (Inr (Table df), w') \<Longrightarrow>
   load_data num_of w = (case normalize num_of df of Inl x \<Rightarrow> (Inl x, w') | Inr d \<Rightarrow> (Inr d, w'))"
  by (simp add: load_data_def io_defs split: sum.split)

lemma load_data_fallback:
  "read_primary w = (Inl e, w') \<Longrightarrow>
   load_data num_of w =
     (case snapshot w' of
        Inl x \<Rightarrow> (Inr empty_frame, w')
      | Inr d \<Rightarrow> (case normalize num_of d of Inl x \<Rightarrow> (Inl x, w') | Inr d' \<Rightarrow> (Inr d', w')))"
  by (simp add: load_data_def io_defs read_secondary_total normalize_empty_frame split: sum.split)

lemma load_data_raises_only_cast:
  assumes "load_data num_of w = (Inl x, w')"
  shows "x = cast_error"
proof -
  obtain r w1 where p: "io_catch read_primary (\<lambda>e. read_secondary) w = (r, w1)"
    by (cases "io_catch read_primary (\<lambda>e. read_secondary) w")
  have "\<exists>l. r = Inr l"
    using p read_secondary_total
    by (auto simp: io_catch_def split: prod.splits sum.splits)
  then obtain l where l: "r = Inr l" ..
  show ?thesis
  proof (cases l)
    case (Returned df)
    with assms p l show ?thesis by (simp add: load_data_def io_bind_def io_return_def)
  next
    case (Table df)
    with assms p l have "\<exists>y. normalize num_of df = Inl y \<and> y = x"
      by (auto simp: load_data_def io_bind_def io_return_def io_raise_def split: sum.splits)
    then show ?thesis using normalize_raises by blast
  qed
qed

text \<open>
  C3, at a sheet that can be read and holds the text \<^verbatim>\<open>8.5\<close> under \<^verbatim>\<open>hora\<close>: the
  first \<^verbatim>\<open>try\<close> succeeds, and the cast to \<^verbatim>\<open>Int64\<close>, which stands after both
  \<^verbatim>\<open>try\<close> blocks, raises \<^verbatim>\<open>TypeError\<close> out of \<^verbatim>\<open>load_data\<close>.
\<close>

theorem load_data_half_hour_raises:
  "load_data half_hour_parser half_hour_world = (Inl cast_error, half_hour_world)"
proof -
  have f: "faults half_hour_world = []" and c: "credentials half_hour_world = Some Secrets_account"
    by (simp_all add: half_hour_world_def)
  let ?row = "[str_of ''2024-05-06T07:08:09'', str_of ''rid-1'', str_of ''Juan de la Cruz'',
         str_of ''1234567'', [], [], [], [], str_of ''AB123C'', str_of ''Anestesia'', [], [],
         str_of ''Lunes'', str_of ''8.5'', [], str_of ''manual'']"
  have s: "worksheet half_hour_world = Some [HEADERS, ?row]"
    by (simp add: half_hour_world_def)
  have fg: "fill_gaps [HEADERS, ?row] = [HEADERS, ?row]"
    by (simp add: fill_gaps_def pad_row_def HEADERS_def)
  have e: "ensure_headers HEADERS half_hour_world = (Inr (), half_hour_world)"
    using f s fg by (simp add: ensure_headers_def io_defs get_all_values_quiet)
  have m: "mk_dataframe [?row] HEADERS = Inr \<lparr>columns = HEADERS, rows = [map Str ?row]\<rparr>"
    using mk_dataframe_rectangle [of "[?row]" HEADERS] by (simp add: HEADERS_def)
  have p: "read_primary half_hour_world
           = (Inr (Table \<lparr>columns = HEADERS, rows = [map Str ?row]\<rparr>), half_hour_world)"
    using get_gspread_client_quiet [OF f c] open_or_create_sheet_quiet [OF f s] e
      get_all_values_quiet [OF f s] fg m
    by (simp add: read_primary_def io_defs)
  have n: "normalize half_hour_parser \<lparr>columns = HEADERS, rows = [map Str ?row]\<rparr> = Inl cast_error"
    by (simp add: normalize_def normalize_hora_def index_HEADERS column_at_def cell_at_def
          to_numeric_def half_hour_parser_def astype_Int64_def)
  show ?thesis
    using load_data_after_primary [OF p, of half_hour_parser] n by simp
qed

section \<open>The cache after an append\<close>








end
